theory Spec2Isabelle
  imports Complex_Main "HOL-Library.Word" "HOL-Library.Log_Nat"
begin

unbundle bit_operations_syntax

section \<open>The NDK media audio stream (audiostream.cpp)\<close>

text \<open>
  A shallow embedding of \<^verbatim>\<open>src/libAvKys/Plugins/MultiSink/src/ndkmedia/src/audiostream.cpp\<close>:
  the two lookup tables and the functions that read them, the frame slot shared by
  \<^verbatim>\<open>convertPacket\<close> and \<^verbatim>\<open>avPacketDequeue\<close>, one call of \<^verbatim>\<open>encodeData\<close> against the codec,
  and \<^verbatim>\<open>readPacket\<close>.
\<close>

subsection \<open>Qt containers\<close>

text \<open>
  A \<^verbatim>\<open>QMap<Key, T>\<close> keeps its items ordered by key. It is modelled as an association
  list in ascending key order. \<^verbatim>\<open>QMap::value(key)\<close> returns the value stored under the
  key, or a default-constructed value when the map has no such key; \<^verbatim>\<open>QMap::key(value)\<close>
  returns the first key (in key order) that holds the value, or a default-constructed
  key when no item holds it. For \<^verbatim>\<open>int32_t\<close> the default-constructed value is 0.
\<close>

definition QMap_value :: "('k \<times> 'v) list \<Rightarrow> 'k \<Rightarrow> 'v \<Rightarrow> 'v" where
  "QMap_value m k dflt = (case map_of m k of None \<Rightarrow> dflt | Some v \<Rightarrow> v)"

fun QMap_key :: "('k \<times> 'v) list \<Rightarrow> 'v \<Rightarrow> 'k \<Rightarrow> 'k" where
  "QMap_key [] v dflt = dflt"
| "QMap_key ((k, v') # m) v dflt = (if v' = v then k else QMap_key m v dflt)"

subsection \<open>Constants and enumerations\<close>

type_synonym int32_t = "32 word"

definition ENCODING_PCM_16BIT :: int32_t where "ENCODING_PCM_16BIT = 0x2"
definition ENCODING_PCM_8BIT :: int32_t where "ENCODING_PCM_8BIT = 0x3"
definition ENCODING_PCM_FLOAT :: int32_t where "ENCODING_PCM_FLOAT = 0x4"

definition CHANNEL_MASK_MONO :: int32_t where "CHANNEL_MASK_MONO = 0x2"
definition CHANNEL_MASK_FRONT_LEFT :: int32_t where "CHANNEL_MASK_FRONT_LEFT = 0x4"
definition CHANNEL_MASK_FRONT_RIGHT :: int32_t where "CHANNEL_MASK_FRONT_RIGHT = 0x8"
definition CHANNEL_MASK_FRONT_CENTER :: int32_t where "CHANNEL_MASK_FRONT_CENTER = 0x10"
definition CHANNEL_MASK_LOW_FREQUENCY :: int32_t where "CHANNEL_MASK_LOW_FREQUENCY = 0x20"
definition CHANNEL_MASK_BACK_LEFT :: int32_t where "CHANNEL_MASK_BACK_LEFT = 0x40"
definition CHANNEL_MASK_BACK_RIGHT :: int32_t where "CHANNEL_MASK_BACK_RIGHT = 0x80"
definition CHANNEL_MASK_FRONT_LEFT_OF_CENTER :: int32_t where
  "CHANNEL_MASK_FRONT_LEFT_OF_CENTER = 0x100"
definition CHANNEL_MASK_FRONT_RIGHT_OF_CENTER :: int32_t where
  "CHANNEL_MASK_FRONT_RIGHT_OF_CENTER = 0x200"
definition CHANNEL_MASK_BACK_CENTER :: int32_t where "CHANNEL_MASK_BACK_CENTER = 0x400"
definition CHANNEL_MASK_SIDE_LEFT :: int32_t where "CHANNEL_MASK_SIDE_LEFT = 0x800"
definition CHANNEL_MASK_SIDE_RIGHT :: int32_t where "CHANNEL_MASK_SIDE_RIGHT = 0x1000"

text \<open>
  Modelled from the spec: the enumeration \<^verbatim>\<open>AkAudioCaps::SampleFormat\<close> (akaudiocaps.h is
  not among the sources). The spec names the three formats of the table, "unsigned-8-bit,
  signed-16-bit, floating-point"; \<open>SampleFormat_other n\<close> stands for every other
  enumerator of the type, \<open>n\<close> telling them apart.
\<close>

datatype SampleFormat =
    SampleFormat_u8
  | SampleFormat_s16
  | SampleFormat_flt
  | SampleFormat_other nat

text \<open>
  Modelled from the spec: the enumeration \<^verbatim>\<open>AkAudioCaps::Position\<close> (akaudiocaps.h is not
  among the sources): the eleven positions that the table of this file names, and
  \<open>Position_other n\<close> for every other enumerator of the type.
\<close>

datatype Position =
    Position_FrontCenter
  | Position_FrontLeft
  | Position_FrontRight
  | Position_LowFrequency1
  | Position_BackLeft
  | Position_BackRight
  | Position_FrontLeftOfCenter
  | Position_FrontRightOfCenter
  | Position_BackCenter
  | Position_SideLeft
  | Position_SideRight
  | Position_other nat

subsection \<open>The channel layout mapper\<close>

text \<open>
  \<^verbatim>\<open>channelMaskToPosition()\<close>, lines 53 to 71. The initializer list is already in
  ascending key order, which is the order of the \<^verbatim>\<open>QMap\<close> built from it.
\<close>

definition channelMaskToPosition :: "(int32_t \<times> Position) list" where
  "channelMaskToPosition =
    [(CHANNEL_MASK_MONO                 , Position_FrontCenter       ),
     (CHANNEL_MASK_FRONT_LEFT           , Position_FrontLeft         ),
     (CHANNEL_MASK_FRONT_RIGHT          , Position_FrontRight        ),
     (CHANNEL_MASK_FRONT_CENTER         , Position_FrontCenter       ),
     (CHANNEL_MASK_LOW_FREQUENCY        , Position_LowFrequency1     ),
     (CHANNEL_MASK_BACK_LEFT            , Position_BackLeft          ),
     (CHANNEL_MASK_BACK_RIGHT           , Position_BackRight         ),
     (CHANNEL_MASK_FRONT_LEFT_OF_CENTER , Position_FrontLeftOfCenter ),
     (CHANNEL_MASK_FRONT_RIGHT_OF_CENTER, Position_FrontRightOfCenter),
     (CHANNEL_MASK_BACK_CENTER          , Position_BackCenter        ),
     (CHANNEL_MASK_SIDE_LEFT            , Position_SideLeft          ),
     (CHANNEL_MASK_SIDE_RIGHT           , Position_SideRight         )]"

text \<open>\<^verbatim>\<open>AudioStream::encodingFromSampleFormat\<close>, lines 128 to 137.\<close>

definition encodingFromSampleFormat_table :: "(SampleFormat \<times> int32_t) list" where
  "encodingFromSampleFormat_table =
    [(SampleFormat_u8 , ENCODING_PCM_8BIT ),
     (SampleFormat_s16, ENCODING_PCM_16BIT),
     (SampleFormat_flt, ENCODING_PCM_FLOAT)]"

definition encodingFromSampleFormat :: "SampleFormat \<Rightarrow> int32_t" where
  "encodingFromSampleFormat format = QMap_value encodingFromSampleFormat_table format 0"

text \<open>
  \<^verbatim>\<open>AudioStream::channelMaskFromLayout\<close>, lines 139 to 147. The function
  \<^verbatim>\<open>AkAudioCaps::positions\<close>, which lists the positions of a layout, is not among the
  sources and is a parameter of the model.
\<close>

definition channelMaskFromLayout :: "('layout \<Rightarrow> Position list) \<Rightarrow> 'layout \<Rightarrow> int32_t" where
  "channelMaskFromLayout positions layout =
     foldl (\<lambda>mask position. mask OR QMap_key channelMaskToPosition position 0)
       0 (positions layout)"

text \<open>
  The spec's reading of \<^verbatim>\<open>encodingForFormat\<close>, for comparison with the code: "total
  function over the three supported formats; fails with UnsupportedFormat if given any
  other value".
\<close>

datatype mapper_error = UnsupportedFormat

fun spec_encodingForFormat :: "SampleFormat \<Rightarrow> mapper_error + int32_t" where
  "spec_encodingForFormat SampleFormat_u8 = Inr ENCODING_PCM_8BIT"
| "spec_encodingForFormat SampleFormat_s16 = Inr ENCODING_PCM_16BIT"
| "spec_encodingForFormat SampleFormat_flt = Inr ENCODING_PCM_FLOAT"
| "spec_encodingForFormat (SampleFormat_other n) = Inl UnsupportedFormat"

text \<open>
  The spec's reconstruction of a layout from a mask, "each bit maps back to exactly one
  position": the positions that the table gives to the bits set in the mask.
\<close>

definition spec_positionsFromMask :: "int32_t \<Rightarrow> Position list" where
  "spec_positionsFromMask bitmask =
     map snd (filter (\<lambda>(k, p). k AND bitmask \<noteq> 0) channelMaskToPosition)"

subsection \<open>Doubles\<close>

text \<open>
  A \<^verbatim>\<open>double\<close> is an IEEE 754 binary64 number: a rational with a significand of 53 bits
  and an exponent between -1074 and 971, one of the two infinities, or not a number. The
  sign of zero is not modelled: no comparison or conversion of this file reads it. Every
  operation rounds its exact result to the nearest double, ties to the even significand;
  a result that rounds to \<open>2 ^ 1024\<close> or beyond is an infinity.
\<close>

datatype double = Finite rat | PInf | NInf | NaN

text \<open>\<open>ilog2 x\<close> is the exponent \<open>e\<close> with \<open>2 ^ e \<le> \<bar>x\<bar> < 2 ^ (e + 1)\<close>, for \<open>x\<close> other than 0.\<close>

definition ilog2 :: "rat \<Rightarrow> int" where
  "ilog2 x =
     (let p = \<bar>fst (quotient_of x)\<bar>; q = snd (quotient_of x);
          d = bitlen p - bitlen q
      in if 2 powi d \<le> \<bar>x\<bar> then d else d - 1)"

definition round_half_even :: "rat \<Rightarrow> int" where
  "round_half_even r =
     (let f = \<lfloor>r\<rfloor>; frac = r - of_int f
      in if frac < 1 / 2 then f
         else if 1 / 2 < frac then f + 1
         else if even f then f else f + 1)"

definition round_double :: "rat \<Rightarrow> double" where
  "round_double x =
     (if x = 0 then Finite 0
      else
        (let e = ilog2 x;
             q = max (e - 52) (- 1074);
             m = round_half_even (x / 2 powi q)
         in if 1023 < e \<or> (e = 1023 \<and> \<bar>m\<bar> = 9007199254740992)
            then (if 0 < x then PInf else NInf)
            else Finite (of_int m * 2 powi q)))"

fun dneg :: "double \<Rightarrow> double" where
  "dneg (Finite a) = Finite (- a)"
| "dneg PInf = NInf"
| "dneg NInf = PInf"
| "dneg NaN = NaN"

fun dadd :: "double \<Rightarrow> double \<Rightarrow> double" where
  "dadd NaN y = NaN"
| "dadd x NaN = NaN"
| "dadd (Finite a) (Finite b) = round_double (a + b)"
| "dadd PInf NInf = NaN"
| "dadd NInf PInf = NaN"
| "dadd PInf y = PInf"
| "dadd NInf y = NInf"
| "dadd (Finite a) y = y"

definition dsub :: "double \<Rightarrow> double \<Rightarrow> double" where
  "dsub x y = dadd x (dneg y)"

fun dmul :: "double \<Rightarrow> double \<Rightarrow> double" where
  "dmul NaN y = NaN"
| "dmul x NaN = NaN"
| "dmul (Finite a) (Finite b) = round_double (a * b)"
| "dmul (Finite a) PInf = (if a = 0 then NaN else if 0 < a then PInf else NInf)"
| "dmul (Finite a) NInf = (if a = 0 then NaN else if 0 < a then NInf else PInf)"
| "dmul PInf (Finite b) = (if b = 0 then NaN else if 0 < b then PInf else NInf)"
| "dmul NInf (Finite b) = (if b = 0 then NaN else if 0 < b then NInf else PInf)"
| "dmul PInf PInf = PInf"
| "dmul PInf NInf = NInf"
| "dmul NInf PInf = NInf"
| "dmul NInf NInf = PInf"

text \<open>\<^verbatim>\<open>d >= 0.0\<close>: false when \<open>d\<close> is not a number.\<close>

fun dge0 :: "double \<Rightarrow> bool" where
  "dge0 (Finite a) = (0 \<le> a)"
| "dge0 PInf = True"
| "dge0 NInf = False"
| "dge0 NaN = False"

text \<open>
  The conversions to \<^verbatim>\<open>double\<close>: of a \<^verbatim>\<open>qint64\<close>, which rounds above \<open>2 ^ 53\<close>, and of an
  \<^verbatim>\<open>int\<close>, which is exact.
\<close>

definition double_of_int64 :: "64 word \<Rightarrow> double" where
  "double_of_int64 x = round_double (of_int (sint x))"

definition double_of_int :: "32 word \<Rightarrow> double" where
  "double_of_int k = Finite (of_int (sint k))"

subsection \<open>Packets\<close>

type_synonym byte = "8 word"

text \<open>
  Modelled from the spec: the classes \<^verbatim>\<open>AkPacket\<close>, \<^verbatim>\<open>AkAudioPacket\<close>, \<^verbatim>\<open>AkCaps\<close> and
  \<^verbatim>\<open>AkFrac\<close> (akpacket.cpp, akaudiopacket.cpp, akcaps.cpp and akfrac.cpp are not among the
  sources). A packet carries what this file reads and writes: the caps, the buffer, the
  presentation timestamp (\<^verbatim>\<open>qint64\<close>), the time base, the stream index and the id. The
  time base is the spec's "rational number of seconds represented by one timestamp
  unit": the field holds the \<^verbatim>\<open>double\<close> that \<^verbatim>\<open>timeBase().value()\<close> returns, for the fraction
  \<open>n / d\<close> the double \<open>round_double (n / d)\<close>. A valid packet is a value of this record; the null packet
  (\<^verbatim>\<open>AkAudioPacket()\<close>, \<^verbatim>\<open>nullptr\<close>, a packet that \<^verbatim>\<open>operator bool\<close> reads as false) is
  \<open>None\<close> of \<open>AkPacket option\<close>, the spec's "one optional AudioFrame slot".
\<close>

record AkPacket =
  pkt_caps :: string
  pkt_buffer :: "byte list"
  pkt_pts :: "64 word"
  pkt_timeBase :: double
  pkt_index :: int
  pkt_id :: int

text \<open>
  Modelled from the spec: \<^verbatim>\<open>AkAudioPacket::operator +=\<close> (akaudiopacket.cpp is not among
  the sources). "Appending a frame to an empty accumulator slot replaces it; appending
  to a non-empty slot concatenates sample data (time-ordered)". The spec does not say
  which timestamp the concatenation carries; the model keeps the one of the slot.
\<close>

definition AkAudioPacket_plus_assign :: "AkPacket option \<Rightarrow> AkPacket \<Rightarrow> AkPacket option" where
  "AkAudioPacket_plus_assign slot other =
     (case slot of
        None \<Rightarrow> Some other
      | Some frame \<Rightarrow> Some (frame\<lparr>pkt_buffer := pkt_buffer frame @ pkt_buffer other\<rparr>))"

subsection \<open>The codec and the stream\<close>

text \<open>
  \<^verbatim>\<open>AMediaCodecBufferInfo\<close> of the NDK: \<^verbatim>\<open>int32_t offset\<close>, \<^verbatim>\<open>int32_t size\<close>,
  \<^verbatim>\<open>int64_t presentationTimeUs\<close>, \<^verbatim>\<open>uint32_t flags\<close>.
\<close>

record AMediaCodecBufferInfo =
  info_offset :: "32 word"
  info_size :: "32 word"
  info_presentationTimeUs :: "64 word"
  info_flags :: "32 word"

text \<open>The flag of the NDK header NdkMediaCodec.h.\<close>

definition AMEDIACODEC_BUFFER_FLAG_END_OF_STREAM :: "32 word" where
  "AMEDIACODEC_BUFFER_FLAG_END_OF_STREAM = 4"

text \<open>
  What the stream does to the world outside it, in the order it does it: the wait on
  \<^verbatim>\<open>m_frameReady\<close> with its limit, \<^verbatim>\<open>wakeAll\<close>, every call of the codec with its arguments,
  the \<^verbatim>\<open>memcpy\<close> into an input buffer (buffer index and bytes written at its start) and
  the signal \<^verbatim>\<open>packetReady\<close>.
\<close>

datatype effect =
    Wait nat
  | WakeAll
  | DequeueInputBuffer int
  | GetInputBuffer nat
  | MemcpyToInputBuffer nat "byte list"
  | QueueInputBuffer nat nat nat "64 word" "32 word"
  | DequeueOutputBuffer int
  | GetOutputBuffer nat
  | ReleaseOutputBuffer nat bool
  | PacketReady AkPacket

text \<open>
  The part of \<^verbatim>\<open>AudioStream\<close> and \<^verbatim>\<open>AudioStreamPrivate\<close> that the functions below touch:
  the frame slot \<^verbatim>\<open>m_frame\<close>, the index of the stream (\<^verbatim>\<open>index()\<close>), and the effects so
  far. The mutex is not modelled: each locked section is one step.
\<close>

record AudioStream =
  m_frame :: "AkPacket option"
  stream_index :: nat
  effects :: "effect list"

definition emit :: "effect \<Rightarrow> AudioStream \<Rightarrow> AudioStream" where
  "emit e s = s\<lparr>effects := effects s @ [e]\<rparr>"

text \<open>
  What \<^verbatim>\<open>m_frameReady.wait(&m_frameMutex, THREAD_WAIT_LIMIT)\<close> can do: time out (it returns
  false), or return true after the producer thread has handed packets to
  \<^verbatim>\<open>convertPacket\<close> while the mutex was released.
\<close>

datatype wait_outcome = TimedOut | Woken "AkPacket list"

text \<open>
  What the codec answers during one call of \<^verbatim>\<open>encodeData\<close>: the index returned by
  \<^verbatim>\<open>AMediaCodec_dequeueInputBuffer\<close> (negative: none), the region returned by
  \<^verbatim>\<open>AMediaCodec_getInputBuffer\<close> (\<open>None\<close>: a null pointer; otherwise its capacity is the
  length of the list), the index and the info filled by
  \<^verbatim>\<open>AMediaCodec_dequeueOutputBuffer\<close>, and the region returned by
  \<^verbatim>\<open>AMediaCodec_getOutputBuffer\<close>. \<open>frameWait\<close> is the outcome of the wait, should
  \<^verbatim>\<open>avPacketDequeue\<close> enter it. \<open>outOfRangeInt\<close> is what the target on which the stream
  runs yields for the conversion of a \<^verbatim>\<open>double\<close> to \<^verbatim>\<open>int\<close> when the double is not a number
  or its truncation is not an \<^verbatim>\<open>int\<close>: C++ leaves that value undefined, the program goes
  on with it (x86 yields \<^verbatim>\<open>INT_MIN\<close>; ARM yields the nearest \<^verbatim>\<open>int\<close>, and 0 for not a number).
\<close>

record codec_env =
  frameWait :: wait_outcome
  inputIndex :: int
  inputBuffer :: "byte list option"
  outputIndex :: int
  outputInfo :: AMediaCodecBufferInfo
  outputBuffer :: "byte list option"
  outOfRangeInt :: "double \<Rightarrow> 32 word"

text \<open>
  C++ leaves these undefined, and what they read or overwrite is not in the model, which
  makes each a result of its own: a \<^verbatim>\<open>memcpy\<close> from a null pointer, a \<^verbatim>\<open>memcpy\<close> that reads
  past the region the codec returned, and one that writes past its target.
\<close>

datatype undefined_behaviour =
    NullPointerRead
  | ReadOutOfBounds
  | WriteOutOfBounds

subsection \<open>The frame slot\<close>

text \<open>
  \<^verbatim>\<open>AudioStream::convertPacket\<close>, lines 149 to 163. \<open>iStream\<close> is the converter element
  \<^verbatim>\<open>m_convert->iStream\<close>, a collaborator outside this file; it may return a null packet.
\<close>

definition convertPacket ::
  "(AkPacket \<Rightarrow> AkPacket option) \<Rightarrow> AkPacket option \<Rightarrow> AudioStream \<Rightarrow> AudioStream" where
  "convertPacket iStream packet s =
     (case packet of
        None \<Rightarrow> s
      | Some p \<Rightarrow>
          (case iStream p of
             None \<Rightarrow> s
           | Some iPacket \<Rightarrow>
               emit WakeAll (s\<lparr>m_frame := AkAudioPacket_plus_assign (m_frame s) iPacket\<rparr>)))"

text \<open>
  \<^verbatim>\<open>AudioStream::avPacketDequeue\<close>, lines 231 to 248. \<open>limit\<close> is the macro
  \<^verbatim>\<open>THREAD_WAIT_LIMIT\<close> of mediawriterndkmedia.h, which is not among the sources.
\<close>

definition avPacketDequeue ::
  "nat \<Rightarrow> (AkPacket \<Rightarrow> AkPacket option) \<Rightarrow> wait_outcome \<Rightarrow> AudioStream
    \<Rightarrow> AkPacket option \<times> AudioStream" where
  "avPacketDequeue limit iStream w s =
     (if m_frame s = None then
        (case w of
           TimedOut \<Rightarrow> (None, emit (Wait limit) s)
         | Woken ps \<Rightarrow>
             (let s' = foldl (\<lambda>t p. convertPacket iStream (Some p) t) (emit (Wait limit) s) ps
              in (m_frame s', s'\<lparr>m_frame := None\<rparr>)))
      else (m_frame s, s\<lparr>m_frame := None\<rparr>))"

subsection \<open>The presentation time\<close>

text \<open>
  The conversion of a \<^verbatim>\<open>double\<close> to \<^verbatim>\<open>int\<close> (32 bits) truncates towards zero. When the
  truncated value is not an \<^verbatim>\<open>int\<close>, or the double is an infinity or not a number, the
  result is what the target yields, \<open>oor\<close>.
\<close>

definition INT_MAX :: int where "INT_MAX = 2147483647"
definition INT_MIN :: int where "INT_MIN = - 2147483648"

definition double_to_int :: "(double \<Rightarrow> int32_t) \<Rightarrow> double \<Rightarrow> int32_t" where
  "double_to_int oor d =
     (case d of
        Finite x \<Rightarrow>
          (let t = (if 0 \<le> x then \<lfloor>x\<rfloor> else \<lceil>x\<rceil>)
           in if INT_MIN \<le> t \<and> t \<le> INT_MAX then word_of_int t else oor d)
      | PInf \<Rightarrow> oor d
      | NInf \<Rightarrow> oor d
      | NaN \<Rightarrow> oor d)"

text \<open>
  \<^verbatim>\<open>int qRound(double d)\<close> of Qt 5 (qglobal.h):
  \<^verbatim>\<open>d >= 0.0 ? int(d + 0.5) : int(d - double(int(d-1)) + 0.5) + int(d-1)\<close>.
  The sum of the two \<^verbatim>\<open>int\<close>s is within the range of \<^verbatim>\<open>int\<close> when both conversions are.
\<close>

definition qRound :: "(double \<Rightarrow> int32_t) \<Rightarrow> double \<Rightarrow> int32_t" where
  "qRound oor d =
     (if dge0 d then double_to_int oor (dadd d (Finite (1 / 2)))
      else
        (let k = double_to_int oor (dsub d (Finite 1))
         in double_to_int oor (dadd (dsub d (double_of_int k)) (Finite (1 / 2))) + k))"

text \<open>
  Lines 204 and 205 of \<^verbatim>\<open>encodeData\<close>:
  \<^verbatim>\<open>qRound(1e6 * packet.pts() * packet.timeBase().value())\<close>, an \<^verbatim>\<open>int\<close>.
\<close>

definition presentationTimeUs :: "(double \<Rightarrow> int32_t) \<Rightarrow> AkPacket \<Rightarrow> int32_t" where
  "presentationTimeUs oor packet =
     qRound oor
       (dmul (dmul (Finite 1000000) (double_of_int64 (pkt_pts packet))) (pkt_timeBase packet))"

subsection \<open>Reading an output buffer\<close>

text \<open>
  \<^verbatim>\<open>size_t(info.size)\<close>: the conversion of an \<^verbatim>\<open>int32_t\<close> to \<^verbatim>\<open>size_t\<close>, taken as 64 bits
  wide; a negative size becomes a number above \<open>2 ^ 63\<close>.
\<close>

definition size_t_of_int32 :: "32 word \<Rightarrow> nat" where
  "size_t_of_int32 x = unat (scast x :: 64 word)"

text \<open>
  \<^verbatim>\<open>memcpy(dst, data + offset, n)\<close> for the region \<open>data\<close> that the codec returned: the
  bytes read, or the undefined behaviour. A copy of no bytes from a region reads nothing,
  wherever the offset points; a null pointer handed to \<^verbatim>\<open>memcpy\<close> is undefined whatever
  the count.
\<close>

definition memcpy_from :: "byte list option \<Rightarrow> int \<Rightarrow> nat \<Rightarrow> undefined_behaviour + byte list" where
  "memcpy_from data off n =
     (case data of
        None \<Rightarrow> Inl NullPointerRead
      | Some bytes \<Rightarrow>
          if n = 0 then Inr []
          else if off < 0 \<or> int (length bytes) < off + int n then Inl ReadOutOfBounds
          else Inr (take n (drop (nat off) bytes)))"

text \<open>
  \<^verbatim>\<open>AudioStreamPrivate::readPacket\<close>, lines 273 to 293. \<open>data\<close> is the answer of
  \<^verbatim>\<open>AMediaCodec_getOutputBuffer\<close>; with a null pointer \<^verbatim>\<open>bufferSize\<close> keeps the 0 it was
  initialised with. \<^verbatim>\<open>QByteArray(int(bufferSize), Qt::Uninitialized)\<close> has \<^verbatim>\<open>bufferSize\<close>
  bytes when that is an \<^verbatim>\<open>int\<close>, and none otherwise.
\<close>

definition readPacket ::
  "nat \<Rightarrow> AMediaCodecBufferInfo \<Rightarrow> byte list option \<Rightarrow> AudioStream
    \<Rightarrow> (undefined_behaviour + AkPacket) \<times> AudioStream" where
  "readPacket bufferIndex info data s =
     (let s1 = emit (GetOutputBuffer bufferIndex) s;
          bufferSize0 = (case data of None \<Rightarrow> 0 | Some bytes \<Rightarrow> length bytes);
          bufferSize = min bufferSize0 (size_t_of_int32 (info_size info))
      in if INT_MAX < int bufferSize then (Inl WriteOutOfBounds, s1)
         else
           (case memcpy_from data (sint (info_offset info)) bufferSize of
              Inl ub \<Rightarrow> (Inl ub, s1)
            | Inr oBuffer \<Rightarrow>
                (Inr \<lparr>pkt_caps = ''binary/data'',
                      pkt_buffer = oBuffer,
                      pkt_pts = info_presentationTimeUs info,
                      pkt_timeBase = round_double (1 / 1000000),
                      pkt_index = int (stream_index s),
                      pkt_id = 0\<rparr>, s1)))"

subsection \<open>One call of encodeData\<close>

text \<open>Line 167: \<^verbatim>\<open>ssize_t timeOut = 5000\<close>.\<close>

definition timeOut :: int where "timeOut = 5000"

text \<open>Lines 214 to 228 of \<^verbatim>\<open>encodeData\<close>: the output buffer is drained.\<close>

definition encodeData_drain ::
  "codec_env \<Rightarrow> AudioStream \<Rightarrow> (undefined_behaviour + bool) \<times> AudioStream" where
  "encodeData_drain env s =
     (let s1 = emit (DequeueOutputBuffer timeOut) s;
          bufferIndex = outputIndex env
      in if 0 \<le> bufferIndex then
           (case readPacket (nat bufferIndex) (outputInfo env) (outputBuffer env) s1 of
              (Inl ub, s2) \<Rightarrow> (Inl ub, s2)
            | (Inr packet, s2) \<Rightarrow>
                (Inr True,
                 emit (PacketReady packet)
                   (emit (ReleaseOutputBuffer (nat bufferIndex)
                            (info_size (outputInfo env) \<noteq> 0)) s2)))
         else (Inr True, s1))"

text \<open>
  \<^verbatim>\<open>AudioStream::encodeData\<close>, lines 165 to 229. The result is what the function
  returns, or the undefined behaviour that reading the output buffer runs into, and the
  stream afterwards.
\<close>

definition encodeData ::
  "nat \<Rightarrow> (AkPacket \<Rightarrow> AkPacket option) \<Rightarrow> bool \<Rightarrow> codec_env \<Rightarrow> AudioStream
    \<Rightarrow> (undefined_behaviour + bool) \<times> AudioStream" where
  "encodeData limit iStream eos env s =
     (if eos then
        (let s1 = emit (DequeueInputBuffer timeOut) s;
             bufferIndex = inputIndex env
         in if bufferIndex < 0 then (Inr False, s1)
            else
              encodeData_drain env
                (emit (QueueInputBuffer (nat bufferIndex) 0 0 0
                         AMEDIACODEC_BUFFER_FLAG_END_OF_STREAM) s1))
      else
        (case avPacketDequeue limit iStream (frameWait env) s of
           (None, s1) \<Rightarrow> (Inr False, s1)
         | (Some packet, s1) \<Rightarrow>
             (let s2 = emit (DequeueInputBuffer timeOut) s1;
                  bufferIndex = inputIndex env
              in if bufferIndex < 0 then (Inr False, s2)
                 else
                   (let s3 = emit (GetInputBuffer (nat bufferIndex)) s2
                    in case inputBuffer env of
                         None \<Rightarrow> (Inr False, s3)
                       | Some buffer \<Rightarrow>
                           (let buffersize = min (length (pkt_buffer packet)) (length buffer);
                                s4 = emit (MemcpyToInputBuffer (nat bufferIndex)
                                             (take buffersize (pkt_buffer packet))) s3;
                                timeUs = presentationTimeUs (outOfRangeInt env) packet
                            in encodeData_drain env
                                 (emit (QueueInputBuffer (nat bufferIndex) 0 buffersize
                                          (scast timeUs) 0) s4))))))"

subsection \<open>Reading the effects\<close>

text \<open>
  The submissions of input buffers (\<^verbatim>\<open>AMediaCodec_queueInputBuffer\<close>) and the copies into
  input buffers among a list of effects, in order.
\<close>

fun is_submission :: "effect \<Rightarrow> bool" where
  "is_submission (QueueInputBuffer i off n t fl) = True"
| "is_submission e = False"

fun is_copy :: "effect \<Rightarrow> bool" where
  "is_copy (MemcpyToInputBuffer i bs) = True"
| "is_copy e = False"

definition submissions :: "AudioStream \<Rightarrow> effect list" where
  "submissions s = filter is_submission (effects s)"

definition copies :: "AudioStream \<Rightarrow> effect list" where
  "copies s = filter is_copy (effects s)"

subsection \<open>Example data\<close>

text \<open>
  Two converted frames at 48 kHz (time base 1/48000), a frame 3000 seconds into the
  stream, a frame with pts 11 and time base 7/640, a stream with an empty slot, a codec
  that offers no buffer, and one that offers input buffer 0 with a capacity of four bytes;
  both on a target whose conversion yields \<^verbatim>\<open>INT_MIN\<close> outside the range of \<^verbatim>\<open>int\<close>.
\<close>

definition frame_A :: AkPacket where
  "frame_A = \<lparr>pkt_caps = ''audio/x-raw'', pkt_buffer = [1, 2, 3, 4, 5, 6], pkt_pts = 96000,
               pkt_timeBase = round_double (1 / 48000), pkt_index = 0, pkt_id = 0\<rparr>"

definition frame_B :: AkPacket where
  "frame_B = \<lparr>pkt_caps = ''audio/x-raw'', pkt_buffer = [7, 8], pkt_pts = 96003,
               pkt_timeBase = round_double (1 / 48000), pkt_index = 0, pkt_id = 0\<rparr>"

definition frame_late :: AkPacket where
  "frame_late = \<lparr>pkt_caps = ''audio/x-raw'', pkt_buffer = [1, 2], pkt_pts = 144000000,
                  pkt_timeBase = round_double (1 / 48000), pkt_index = 0, pkt_id = 0\<rparr>"

definition frame_half :: AkPacket where
  "frame_half = \<lparr>pkt_caps = ''audio/x-raw'', pkt_buffer = [1, 2], pkt_pts = 11,
                  pkt_timeBase = round_double (7 / 640), pkt_index = 0, pkt_id = 0\<rparr>"

definition idle_stream :: AudioStream where
  "idle_stream = \<lparr>m_frame = None, stream_index = 1, effects = []\<rparr>"

definition quiet_codec :: codec_env where
  "quiet_codec =
     \<lparr>frameWait = TimedOut, inputIndex = - 1, inputBuffer = None, outputIndex = - 1,
      outputInfo = \<lparr>info_offset = 0, info_size = 0, info_presentationTimeUs = 0,
                     info_flags = 0\<rparr>,
      outputBuffer = None,
      outOfRangeInt = (\<lambda>d. word_of_int INT_MIN)\<rparr>"

definition ready_codec :: codec_env where
  "ready_codec = quiet_codec\<lparr>inputIndex := 0, inputBuffer := Some [0, 0, 0, 0]\<rparr>"

section \<open>Properties\<close>

lemmas CHANNEL_MASK_defs =
  CHANNEL_MASK_MONO_def CHANNEL_MASK_FRONT_LEFT_def CHANNEL_MASK_FRONT_RIGHT_def
  CHANNEL_MASK_FRONT_CENTER_def CHANNEL_MASK_LOW_FREQUENCY_def CHANNEL_MASK_BACK_LEFT_def
  CHANNEL_MASK_BACK_RIGHT_def CHANNEL_MASK_FRONT_LEFT_OF_CENTER_def
  CHANNEL_MASK_FRONT_RIGHT_OF_CENTER_def CHANNEL_MASK_BACK_CENTER_def
  CHANNEL_MASK_SIDE_LEFT_def CHANNEL_MASK_SIDE_RIGHT_def

subsection \<open>The channel layout mapper\<close>

lemma QMap_key_absent: "v \<notin> snd ` set m \<Longrightarrow> QMap_key m v d = d"
  by (induction m) auto

lemma QMap_key_present: "v \<in> snd ` set m \<Longrightarrow> (QMap_key m v d, v) \<in> set m"
  by (induction m) force+

lemma foldl_or_bit:
  "bit (foldl (\<lambda>m p. m OR f p) (a::int32_t) xs) n \<longleftrightarrow>
     bit a n \<or> (\<exists>p\<in>set xs. bit (f p) n)"
  by (induction xs arbitrary: a) (auto simp: bit_or_iff)

lemma foldl_or_and:
  "k AND foldl (\<lambda>m p. m OR f p) (a::int32_t) xs \<noteq> 0 \<longleftrightarrow>
     k AND a \<noteq> 0 \<or> (\<exists>p\<in>set xs. k AND f p \<noteq> 0)"
  by (induction xs arbitrary: a) (simp_all add: bit.conj_disj_distrib or_eq_0_iff, blast)

lemma set_channelMaskToPosition_values:
  "snd ` set channelMaskToPosition =
     {Position_FrontCenter, Position_FrontLeft, Position_FrontRight, Position_LowFrequency1,
      Position_BackLeft, Position_BackRight, Position_FrontLeftOfCenter,
      Position_FrontRightOfCenter, Position_BackCenter, Position_SideLeft, Position_SideRight}"
  by (auto simp: channelMaskToPosition_def)

lemma table_position_cases:
  assumes "p \<in> snd ` set channelMaskToPosition"
  obtains "p = Position_FrontCenter" | "p = Position_FrontLeft" | "p = Position_FrontRight"
    | "p = Position_LowFrequency1" | "p = Position_BackLeft" | "p = Position_BackRight"
    | "p = Position_FrontLeftOfCenter" | "p = Position_FrontRightOfCenter"
    | "p = Position_BackCenter" | "p = Position_SideLeft" | "p = Position_SideRight"
  using assms unfolding set_channelMaskToPosition_values by blast

lemma channelMask_keys:
  "QMap_key channelMaskToPosition Position_FrontCenter 0 = 2 ^ 1"
  "QMap_key channelMaskToPosition Position_FrontLeft 0 = 2 ^ 2"
  "QMap_key channelMaskToPosition Position_FrontRight 0 = 2 ^ 3"
  "QMap_key channelMaskToPosition Position_LowFrequency1 0 = 2 ^ 5"
  "QMap_key channelMaskToPosition Position_BackLeft 0 = 2 ^ 6"
  "QMap_key channelMaskToPosition Position_BackRight 0 = 2 ^ 7"
  "QMap_key channelMaskToPosition Position_FrontLeftOfCenter 0 = 2 ^ 8"
  "QMap_key channelMaskToPosition Position_FrontRightOfCenter 0 = 2 ^ 9"
  "QMap_key channelMaskToPosition Position_BackCenter 0 = 2 ^ 10"
  "QMap_key channelMaskToPosition Position_SideLeft 0 = 2 ^ 11"
  "QMap_key channelMaskToPosition Position_SideRight 0 = 2 ^ 12"
  by (simp_all add: channelMaskToPosition_def CHANNEL_MASK_defs)

lemma QMap_key_single_bit:
  assumes "p \<in> snd ` set channelMaskToPosition"
  shows "\<exists>n<32. QMap_key channelMaskToPosition p 0 = 2 ^ n"
  using assms
proof (cases rule: table_position_cases)
  case 1 then show ?thesis using channelMask_keys(1) by (intro exI[of _ 1]) simp
next
  case 2 then show ?thesis using channelMask_keys(2) by (intro exI[of _ 2]) simp
next
  case 3 then show ?thesis using channelMask_keys(3) by (intro exI[of _ 3]) simp
next
  case 4 then show ?thesis using channelMask_keys(4) by (intro exI[of _ 5]) simp
next
  case 5 then show ?thesis using channelMask_keys(5) by (intro exI[of _ 6]) simp
next
  case 6 then show ?thesis using channelMask_keys(6) by (intro exI[of _ 7]) simp
next
  case 7 then show ?thesis using channelMask_keys(7) by (intro exI[of _ 8]) simp
next
  case 8 then show ?thesis using channelMask_keys(8) by (intro exI[of _ 9]) simp
next
  case 9 then show ?thesis using channelMask_keys(9) by (intro exI[of _ 10]) simp
next
  case 10 then show ?thesis using channelMask_keys(10) by (intro exI[of _ 11]) simp
next
  case 11 then show ?thesis using channelMask_keys(11) by (intro exI[of _ 12]) simp
qed

lemma positions_of_key:
  assumes "q \<in> snd ` set channelMaskToPosition"
  shows "map snd (filter (\<lambda>(k, p). k AND QMap_key channelMaskToPosition q 0 \<noteq> 0)
            channelMaskToPosition) = [q]"
  using assms
  by (cases rule: table_position_cases)
    (simp_all add: channelMaskToPosition_def CHANNEL_MASK_defs)

lemma set_spec_positionsFromMask:
  "set (spec_positionsFromMask m) =
     {p. \<exists>k. (k, p) \<in> set channelMaskToPosition \<and> k AND m \<noteq> 0}"
  by (force simp: spec_positionsFromMask_def)

lemma positions_roundtrip:
  assumes "set (positions layout) \<subseteq> snd ` set channelMaskToPosition"
  shows "set (spec_positionsFromMask (channelMaskFromLayout positions layout)) =
         set (positions layout)"
proof -
  have one: "{p. \<exists>k. (k, p) \<in> set channelMaskToPosition \<and>
                 k AND QMap_key channelMaskToPosition q 0 \<noteq> 0} = {q}"
    if "q \<in> set (positions layout)" for q
  proof -
    have "q \<in> snd ` set channelMaskToPosition" using that assms by blast
    from positions_of_key[OF this]
    have "set (map snd (filter (\<lambda>(k, p). k AND QMap_key channelMaskToPosition q 0 \<noteq> 0)
            channelMaskToPosition)) = {q}" by simp
    then show ?thesis by force
  qed
  have "set (spec_positionsFromMask (channelMaskFromLayout positions layout)) =
        (\<Union>q\<in>set (positions layout). {p. \<exists>k. (k, p) \<in> set channelMaskToPosition \<and>
                 k AND QMap_key channelMaskToPosition q 0 \<noteq> 0})"
    unfolding set_spec_positionsFromMask channelMaskFromLayout_def foldl_or_and by auto
  also have "\<dots> = (\<Union>q\<in>set (positions layout). {q})" using one by simp
  finally show ?thesis by simp
qed

lemma same_position_keys:
  assumes "(k1, p) \<in> set channelMaskToPosition" "(k2, p) \<in> set channelMaskToPosition"
    and "k1 \<noteq> k2"
  shows "{k1, k2} = {CHANNEL_MASK_MONO, CHANNEL_MASK_FRONT_CENTER}"
  using assms by (auto simp: channelMaskToPosition_def)

text \<open>
  Claim C7, as amended. \<^verbatim>\<open>encodingFromSampleFormat\<close> returns \<^verbatim>\<open>ENCODING_PCM_8BIT\<close>,
  \<^verbatim>\<open>ENCODING_PCM_16BIT\<close> and \<^verbatim>\<open>ENCODING_PCM_FLOAT\<close> for the unsigned 8-bit, the signed
  16-bit and the floating-point format. For every other format it does not fail: it
  returns 0, the default value of \<^verbatim>\<open>QMap::value\<close>.
\<close>

theorem encodingFromSampleFormat_values:
  "encodingFromSampleFormat SampleFormat_u8 = ENCODING_PCM_8BIT
   \<and> encodingFromSampleFormat SampleFormat_s16 = ENCODING_PCM_16BIT
   \<and> encodingFromSampleFormat SampleFormat_flt = ENCODING_PCM_FLOAT
   \<and> (format \<notin> {SampleFormat_u8, SampleFormat_s16, SampleFormat_flt}
        \<longrightarrow> encodingFromSampleFormat format = 0)"
  by (cases format)
    (simp_all add: encodingFromSampleFormat_def encodingFromSampleFormat_table_def
      QMap_value_def)

theorem encodingFromSampleFormat_values_witness:
  "SampleFormat_other 5 \<notin> {SampleFormat_u8, SampleFormat_s16, SampleFormat_flt}
   \<and> encodingFromSampleFormat (SampleFormat_other 5) = 0
   \<and> encodingFromSampleFormat SampleFormat_u8 = 3
   \<and> encodingFromSampleFormat SampleFormat_s16 = 2
   \<and> encodingFromSampleFormat SampleFormat_flt = 4"
  using encodingFromSampleFormat_values [of "SampleFormat_other 5"]
  by (simp add: ENCODING_PCM_8BIT_def ENCODING_PCM_16BIT_def ENCODING_PCM_FLOAT_def)

text \<open>
  Claim C7 as stated fails: for a format outside the table the spec's function fails with
  \<open>UnsupportedFormat\<close>, and the code returns the number 0.
\<close>

theorem encodingFromSampleFormat_no_error:
  "spec_encodingForFormat (SampleFormat_other 0) = Inl UnsupportedFormat
   \<and> encodingFromSampleFormat (SampleFormat_other 0) = 0
   \<and> Inr (encodingFromSampleFormat (SampleFormat_other 0))
        \<noteq> spec_encodingForFormat (SampleFormat_other 0)"
  by (simp add: encodingFromSampleFormat_def encodingFromSampleFormat_table_def QMap_value_def)

text \<open>
  Claim C8. The mask that \<^verbatim>\<open>channelMaskFromLayout\<close> returns is the bitwise OR of the codec
  values of the positions of the layout: a bit is set in the mask exactly when it is set
  in the value of some position of the layout. The value of a position that the table
  does not hold is 0; the value of a position that the table holds is a key of the table
  for that position, and a single bit. The function reads nothing but its argument, so
  that a second call returns the same mask.
\<close>

theorem channelMaskFromLayout_is_or:
  "(\<forall>n. bit (channelMaskFromLayout positions layout) n \<longleftrightarrow>
         (\<exists>p\<in>set (positions layout). bit (QMap_key channelMaskToPosition p 0) n))
   \<and> (\<forall>p. p \<notin> snd ` set channelMaskToPosition \<longrightarrow>
         QMap_key channelMaskToPosition p 0 = 0)
   \<and> (\<forall>p. p \<in> snd ` set channelMaskToPosition \<longrightarrow>
         (QMap_key channelMaskToPosition p 0, p) \<in> set channelMaskToPosition
         \<and> (\<exists>n<32. QMap_key channelMaskToPosition p 0 = 2 ^ n))"
  by (simp add: channelMaskFromLayout_def foldl_or_bit QMap_key_absent QMap_key_present
      QMap_key_single_bit)

theorem channelMaskFromLayout_is_or_witness:
  "bit (channelMaskFromLayout id [Position_FrontLeft, Position_other 7, Position_FrontCenter]) 2
   \<and> channelMaskFromLayout id [Position_FrontLeft, Position_other 7, Position_FrontCenter] = 6
   \<and> Position_other 7 \<notin> snd ` set channelMaskToPosition
   \<and> QMap_key channelMaskToPosition (Position_other 7) 0 = 0
   \<and> Position_FrontCenter \<in> snd ` set channelMaskToPosition
   \<and> (QMap_key channelMaskToPosition Position_FrontCenter 0, Position_FrontCenter)
        \<in> set channelMaskToPosition"
  using channelMaskFromLayout_is_or
    [of id "[Position_FrontLeft, Position_other 7, Position_FrontCenter]"]
  by (simp add: channelMaskFromLayout_def channelMaskToPosition_def CHANNEL_MASK_defs)

text \<open>
  Claim C9, as amended. The keys of the table are the bits 1 to 12, each once, so that
  every bit of the table maps to exactly one position. Two different bits of the table
  map to the same position only when they are \<^verbatim>\<open>CHANNEL_MASK_MONO\<close> and
  \<^verbatim>\<open>CHANNEL_MASK_FRONT_CENTER\<close>, which both map to the front centre. The set of positions of
  a layout made of positions of the table is the set of positions that the table gives to
  the bits of its mask.
\<close>

theorem channelMaskToPosition_per_bit:
  "map fst channelMaskToPosition = map (\<lambda>n. 2 ^ n) [1..<13]
   \<and> distinct (map fst channelMaskToPosition)
   \<and> (\<forall>k1 k2 p. (k1, p) \<in> set channelMaskToPosition \<and> (k2, p) \<in> set channelMaskToPosition
          \<and> k1 \<noteq> k2 \<longrightarrow> {k1, k2} = {CHANNEL_MASK_MONO, CHANNEL_MASK_FRONT_CENTER})
   \<and> (set (positions layout) \<subseteq> snd ` set channelMaskToPosition \<longrightarrow>
         set (spec_positionsFromMask (channelMaskFromLayout positions layout))
           = set (positions layout))"
proof (intro conjI)
  show keys: "map fst channelMaskToPosition = map (\<lambda>n. 2 ^ n) [1..<13]"
    by (simp add: channelMaskToPosition_def CHANNEL_MASK_defs upt_conv_Cons)
  show "distinct (map fst channelMaskToPosition)"
    by (simp add: channelMaskToPosition_def CHANNEL_MASK_defs)
  show "\<forall>k1 k2 p. (k1, p) \<in> set channelMaskToPosition \<and> (k2, p) \<in> set channelMaskToPosition
          \<and> k1 \<noteq> k2 \<longrightarrow> {k1, k2} = {CHANNEL_MASK_MONO, CHANNEL_MASK_FRONT_CENTER}"
    by (intro allI impI, elim conjE) (rule same_position_keys)
  show "set (positions layout) \<subseteq> snd ` set channelMaskToPosition \<longrightarrow>
         set (spec_positionsFromMask (channelMaskFromLayout positions layout))
           = set (positions layout)"
    by (intro impI) (rule positions_roundtrip)
qed

theorem channelMaskToPosition_per_bit_witness:
  "set [Position_FrontLeft, Position_FrontRight, Position_FrontCenter]
       \<subseteq> snd ` set channelMaskToPosition
   \<and> channelMaskFromLayout id [Position_FrontLeft, Position_FrontRight, Position_FrontCenter] = 14
   \<and> set (spec_positionsFromMask 14)
       = set [Position_FrontLeft, Position_FrontRight, Position_FrontCenter]
   \<and> (CHANNEL_MASK_MONO, Position_FrontCenter) \<in> set channelMaskToPosition
   \<and> (CHANNEL_MASK_FRONT_CENTER, Position_FrontCenter) \<in> set channelMaskToPosition
   \<and> CHANNEL_MASK_MONO \<noteq> CHANNEL_MASK_FRONT_CENTER"
proof -
  have m: "channelMaskFromLayout id [Position_FrontLeft, Position_FrontRight, Position_FrontCenter] = 14"
    by (simp add: channelMaskFromLayout_def channelMaskToPosition_def CHANNEL_MASK_defs)
  have sub: "set (id [Position_FrontLeft, Position_FrontRight, Position_FrontCenter])
       \<subseteq> snd ` set channelMaskToPosition"
    by (simp add: channelMaskToPosition_def)
  from channelMaskToPosition_per_bit
    [of id "[Position_FrontLeft, Position_FrontRight, Position_FrontCenter]"] sub
  have "set (spec_positionsFromMask
          (channelMaskFromLayout id [Position_FrontLeft, Position_FrontRight, Position_FrontCenter]))
        = set (id [Position_FrontLeft, Position_FrontRight, Position_FrontCenter])"
    by blast
  then have "set (spec_positionsFromMask 14)
       = set [Position_FrontLeft, Position_FrontRight, Position_FrontCenter]"
    unfolding m by simp
  then show ?thesis using m sub
    by (simp add: channelMaskToPosition_def CHANNEL_MASK_defs)
qed

text \<open>
  Claim C9 as stated fails: the two different bits \<^verbatim>\<open>CHANNEL_MASK_MONO\<close> and
  \<^verbatim>\<open>CHANNEL_MASK_FRONT_CENTER\<close> map to the same position, and the layout of the mask
  \<^verbatim>\<open>CHANNEL_MASK_FRONT_CENTER\<close> has another mask, \<^verbatim>\<open>CHANNEL_MASK_MONO\<close>.
\<close>

theorem channelMaskToPosition_not_injective:
  "CHANNEL_MASK_MONO \<noteq> CHANNEL_MASK_FRONT_CENTER
   \<and> map_of channelMaskToPosition CHANNEL_MASK_MONO = Some Position_FrontCenter
   \<and> map_of channelMaskToPosition CHANNEL_MASK_FRONT_CENTER = Some Position_FrontCenter
   \<and> channelMaskFromLayout id (spec_positionsFromMask CHANNEL_MASK_FRONT_CENTER)
        = CHANNEL_MASK_MONO"
  by (simp add: channelMaskToPosition_def CHANNEL_MASK_defs spec_positionsFromMask_def
      channelMaskFromLayout_def)

subsection \<open>Effects of the steps\<close>

lemma effects_emit: "effects (emit e s) = effects s @ [e]"
  by (simp add: emit_def)

lemma m_frame_emit: "m_frame (emit e s) = m_frame s"
  by (simp add: emit_def)

lemma submissions_emit:
  "submissions (emit e s) = submissions s @ (if is_submission e then [e] else [])"
  by (simp add: submissions_def emit_def)

lemma copies_emit:
  "copies (emit e s) = copies s @ (if is_copy e then [e] else [])"
  by (simp add: copies_def emit_def)

lemma submissions_m_frame_update: "submissions (s\<lparr>m_frame := f\<rparr>) = submissions s"
  by (simp add: submissions_def)

lemma copies_m_frame_update: "copies (s\<lparr>m_frame := f\<rparr>) = copies s"
  by (simp add: copies_def)

lemma convertPacket_submissions: "submissions (convertPacket iStream p s) = submissions s"
  by (simp add: convertPacket_def submissions_emit submissions_m_frame_update
      split: option.splits)

lemma convertPacket_copies: "copies (convertPacket iStream p s) = copies s"
  by (simp add: convertPacket_def copies_emit copies_m_frame_update split: option.splits)

lemma foldl_convertPacket_submissions:
  "submissions (foldl (\<lambda>t p. convertPacket iStream (Some p) t) s ps) = submissions s"
  by (induction ps arbitrary: s) (simp_all add: convertPacket_submissions)

lemma foldl_convertPacket_copies:
  "copies (foldl (\<lambda>t p. convertPacket iStream (Some p) t) s ps) = copies s"
  by (induction ps arbitrary: s) (simp_all add: convertPacket_copies)

lemma avPacketDequeue_submissions:
  "submissions (snd (avPacketDequeue limit iStream w s)) = submissions s"
  by (simp add: avPacketDequeue_def Let_def submissions_m_frame_update submissions_emit
      foldl_convertPacket_submissions split: wait_outcome.splits)

lemma avPacketDequeue_copies:
  "copies (snd (avPacketDequeue limit iStream w s)) = copies s"
  by (simp add: avPacketDequeue_def Let_def copies_m_frame_update copies_emit
      foldl_convertPacket_copies split: wait_outcome.splits)

lemma avPacketDequeue_empties: "m_frame (snd (avPacketDequeue limit iStream w s)) = None"
  by (simp add: avPacketDequeue_def Let_def m_frame_emit split: wait_outcome.splits)

lemma readPacket_submissions: "submissions (snd (readPacket i info data s)) = submissions s"
  by (simp add: readPacket_def Let_def submissions_emit split: sum.splits)

lemma readPacket_copies: "copies (snd (readPacket i info data s)) = copies s"
  by (simp add: readPacket_def Let_def copies_emit split: sum.splits)

lemma encodeData_drain_submissions:
  "submissions (snd (encodeData_drain env s)) = submissions s"
proof (cases "readPacket (nat (outputIndex env)) (outputInfo env) (outputBuffer env)
                (emit (DequeueOutputBuffer timeOut) s)")
  case (Pair r s2)
  then have "submissions s2 = submissions s"
    using readPacket_submissions[of "nat (outputIndex env)" "outputInfo env" "outputBuffer env"
        "emit (DequeueOutputBuffer timeOut) s"]
    by (simp add: submissions_emit)
  with Pair show ?thesis
    by (cases r) (simp_all add: encodeData_drain_def Let_def submissions_emit)
qed

lemma encodeData_drain_copies:
  "copies (snd (encodeData_drain env s)) = copies s"
proof (cases "readPacket (nat (outputIndex env)) (outputInfo env) (outputBuffer env)
                (emit (DequeueOutputBuffer timeOut) s)")
  case (Pair r s2)
  then have "copies s2 = copies s"
    using readPacket_copies[of "nat (outputIndex env)" "outputInfo env" "outputBuffer env"
        "emit (DequeueOutputBuffer timeOut) s"]
    by (simp add: copies_emit)
  with Pair show ?thesis
    by (cases r) (simp_all add: encodeData_drain_def Let_def copies_emit)
qed

lemma encodeData_drain_no_output:
  "outputIndex env < 0 \<Longrightarrow>
     encodeData_drain env s = (Inr True, emit (DequeueOutputBuffer timeOut) s)"
  by (simp add: encodeData_drain_def Let_def)

subsection \<open>The frame slot\<close>

text \<open>
  Claim C4. On an empty slot, two calls of \<^verbatim>\<open>convertPacket\<close> whose conversions give the
  frames \<open>A\<close> and then \<open>B\<close>, followed by one call of \<^verbatim>\<open>avPacketDequeue\<close>: the call returns a
  frame whose samples are those of \<open>A\<close> followed by those of \<open>B\<close>, it does not wait, and
  it leaves the slot empty.
\<close>

theorem deposit_twice_then_consume:
  assumes "m_frame s = None" and "iStream a = Some A" and "iStream b = Some B"
  shows "map_option pkt_buffer
           (fst (avPacketDequeue limit iStream w
                  (convertPacket iStream (Some b) (convertPacket iStream (Some a) s))))
           = Some (pkt_buffer A @ pkt_buffer B)
     \<and> m_frame (snd (avPacketDequeue limit iStream w
                  (convertPacket iStream (Some b) (convertPacket iStream (Some a) s)))) = None
     \<and> effects (snd (avPacketDequeue limit iStream w
                  (convertPacket iStream (Some b) (convertPacket iStream (Some a) s))))
           = effects s @ [WakeAll, WakeAll]"
  using assms
  by (simp add: avPacketDequeue_def convertPacket_def AkAudioPacket_plus_assign_def emit_def)

theorem deposit_twice_then_consume_witness:
  "m_frame idle_stream = None \<and> Some frame_A = Some frame_A \<and> Some frame_B = Some frame_B
   \<and> map_option pkt_buffer
        (fst (avPacketDequeue 500 Some TimedOut
               (convertPacket Some (Some frame_B) (convertPacket Some (Some frame_A) idle_stream))))
        = Some [1, 2, 3, 4, 5, 6, 7, 8]
   \<and> m_frame (snd (avPacketDequeue 500 Some TimedOut
               (convertPacket Some (Some frame_B) (convertPacket Some (Some frame_A) idle_stream))))
        = None"
proof -
  have h: "m_frame idle_stream = None" by (simp add: idle_stream_def)
  have b: "pkt_buffer frame_A @ pkt_buffer frame_B = [1, 2, 3, 4, 5, 6, 7, 8]"
    by (simp add: frame_A_def frame_B_def)
  from deposit_twice_then_consume
    [where s = idle_stream and iStream = Some and a = frame_A and b = frame_B
       and A = frame_A and B = frame_B and limit = 500 and w = TimedOut, OF h refl refl] h
  show ?thesis unfolding b by simp
qed

text \<open>
  Claim C5. On an empty slot, when the wait on \<^verbatim>\<open>m_frameReady\<close> times out (no deposit woke
  it), \<^verbatim>\<open>avPacketDequeue\<close> returns the null packet and nothing else: it has waited once,
  with the limit \<^verbatim>\<open>THREAD_WAIT_LIMIT\<close>, and the slot is still empty.
\<close>

theorem avPacketDequeue_timeout:
  assumes "m_frame s = None"
  shows "avPacketDequeue limit iStream TimedOut s
           = (None, s\<lparr>effects := effects s @ [Wait limit]\<rparr>)
     \<and> m_frame (snd (avPacketDequeue limit iStream TimedOut s)) = None"
  using assms by (simp add: avPacketDequeue_def emit_def)

theorem avPacketDequeue_timeout_witness:
  "m_frame idle_stream = None
   \<and> avPacketDequeue 500 Some TimedOut idle_stream
        = (None, \<lparr>m_frame = None, stream_index = 1, effects = [Wait 500]\<rparr>)"
proof -
  have h: "m_frame idle_stream = None" by (simp add: idle_stream_def)
  from avPacketDequeue_timeout [OF h, of 500 Some] h
  show ?thesis by (simp add: idle_stream_def)
qed

subsection \<open>One call of encodeData\<close>

text \<open>
  The model of the doubles agrees with the arithmetic of the machine on the frame with
  pts 11 and time base 7/640: the time base is the double just below 7/640, the product
  is the double just below 120312.5, and the time is 120312, where the exact product
  120312.5 would round to 120313.
\<close>

lemma presentationTimeUs_frame_half:
  "pkt_timeBase frame_half = Finite (3152519739159347 / 288230376151711744)
   \<and> dmul (dmul (Finite 1000000) (double_of_int64 (pkt_pts frame_half)))
        (pkt_timeBase frame_half) = Finite (8267812044799999 / 68719476736)
   \<and> presentationTimeUs (outOfRangeInt ready_codec) frame_half = 120312
   \<and> round (1000000 * 11 * (7 / 640 :: rat)) = 120313"
  by code_simp

text \<open>
  Whatever the frame, the time that \<^verbatim>\<open>encodeData\<close> submits is \<^verbatim>\<open>uint64_t\<close> of an \<^verbatim>\<open>int\<close>:
  read as a signed number it lies between \<^verbatim>\<open>INT_MIN\<close> and \<^verbatim>\<open>INT_MAX\<close>.
\<close>

lemma submitted_time_is_int:
  "sint (scast (t :: int32_t) :: 64 word) = sint t
   \<and> INT_MIN \<le> sint (scast t :: 64 word) \<and> sint (scast t :: 64 word) \<le> INT_MAX"
proof -
  have e: "sint (scast t :: 64 word) = sint t"
    by (simp add: sint_up_scast is_up)
  have "- (2 ^ 31) \<le> sint t" "sint t < 2 ^ 31"
    using sint_ge[of t] sint_lt[of t] by simp_all
  then show ?thesis unfolding e by (simp add: INT_MIN_def INT_MAX_def)
qed

lemma submitted_time_below_3000_seconds:
  "scast (t :: int32_t) \<noteq> (3000000000 :: 64 word)"
proof
  assume a: "scast t = (3000000000 :: 64 word)"
  have "sint (3000000000 :: 64 word) = 3000000000" by simp
  then have "sint (scast t :: 64 word) = 3000000000" unfolding a .
  moreover have "sint (scast t :: 64 word) \<le> INT_MAX"
    using submitted_time_is_int[of t] by blast
  ultimately show False by (simp add: INT_MAX_def)
qed

text \<open>The normal path once a frame is dequeued and the codec has given a buffer.\<close>

lemma encodeData_submits:
  assumes "avPacketDequeue limit iStream (frameWait env) s = (Some packet, s1)"
    and "0 \<le> inputIndex env" and "inputBuffer env = Some buffer"
  shows "encodeData limit iStream False env s =
           encodeData_drain env
             (s1\<lparr>effects := effects s1 @
                [DequeueInputBuffer timeOut,
                 GetInputBuffer (nat (inputIndex env)),
                 MemcpyToInputBuffer (nat (inputIndex env))
                   (take (min (length (pkt_buffer packet)) (length buffer)) (pkt_buffer packet)),
                 QueueInputBuffer (nat (inputIndex env)) 0
                   (min (length (pkt_buffer packet)) (length buffer))
                   (scast (presentationTimeUs (outOfRangeInt env) packet)) 0]\<rparr>)"
  using assms by (simp add: encodeData_def Let_def emit_def)

text \<open>
  The frame 3000 seconds into the stream: the product of the doubles is 3000000000, and
  \<^verbatim>\<open>qRound\<close> converts 3000000000.5, whose truncation is not an \<^verbatim>\<open>int\<close>.
\<close>

lemma frame_late_product:
  "dmul (dmul (Finite 1000000) (double_of_int64 (pkt_pts frame_late)))
     (pkt_timeBase frame_late) = Finite 3000000000"
  by code_simp

lemma frame_late_plus_half: "round_double (6000000001 / 2) = Finite (6000000001 / 2)"
  by code_simp

lemma frame_late_truncation: "\<lfloor>6000000001 / 2 :: rat\<rfloor> = 3000000000"
  by code_simp

lemma presentationTimeUs_frame_late:
  "presentationTimeUs oor frame_late = oor (Finite (6000000001 / 2))"
  unfolding presentationTimeUs_def qRound_def frame_late_product
  by (simp add: frame_late_plus_half double_to_int_def frame_late_truncation INT_MAX_def)

text \<open>
  Claim C1 (a defect of the code). The claim: the presentation time passed to
  \<^verbatim>\<open>AMediaCodec_queueInputBuffer\<close> is \<open>round (10^6 * pts * timebase)\<close> for every \<open>pts\<close> and
  time base. \<^verbatim>\<open>qRound\<close> returns an \<^verbatim>\<open>int\<close>. For the frame 3000 seconds into a 48 kHz stream
  (pts 144000000, time base 1/48000) the product of the doubles is 3000000000 and so is
  the rounded value, above \<^verbatim>\<open>INT_MAX\<close>: \<^verbatim>\<open>qRound\<close> converts 3000000000.5 to \<^verbatim>\<open>int\<close>, which is
  undefined, and the input buffer is submitted with \<^verbatim>\<open>uint64_t\<close> of the \<^verbatim>\<open>int\<close> that the
  target yields, which on no target is 3000000000; where the target yields \<^verbatim>\<open>INT_MIN\<close> the
  submitted time is 0xFFFFFFFF80000000.
\<close>

theorem encodeData_timestamp_out_of_int_range:
  "submissions (snd (encodeData 500 Some False (ready_codec\<lparr>outOfRangeInt := oor\<rparr>)
        (idle_stream\<lparr>m_frame := Some frame_late\<rparr>)))
     = [QueueInputBuffer 0 0 2 (scast (oor (Finite (6000000001 / 2)))) 0]
   \<and> scast (oor (Finite (6000000001 / 2))) \<noteq> (3000000000 :: 64 word)
   \<and> submissions (snd (encodeData 500 Some False ready_codec
        (idle_stream\<lparr>m_frame := Some frame_late\<rparr>)))
     = [QueueInputBuffer 0 0 2 0xFFFFFFFF80000000 0]
   \<and> dmul (dmul (Finite 1000000) (double_of_int64 (pkt_pts frame_late)))
        (pkt_timeBase frame_late) = Finite 3000000000
   \<and> round (1000000 * of_int (sint (pkt_pts frame_late)) * (1 / 48000 :: rat)) = 3000000000
   \<and> INT_MAX < 3000000000"
proof (intro conjI)
  let ?env = "ready_codec\<lparr>outOfRangeInt := oor\<rparr>"
  let ?s = "idle_stream\<lparr>m_frame := Some frame_late\<rparr>"
  have h1: "avPacketDequeue 500 Some (frameWait ?env) ?s = (Some frame_late, idle_stream)"
    by (simp add: avPacketDequeue_def idle_stream_def)
  have h2: "0 \<le> inputIndex ?env" by (simp add: ready_codec_def quiet_codec_def)
  have h3: "inputBuffer ?env = Some [0, 0, 0, 0]" by (simp add: ready_codec_def)
  show "submissions (snd (encodeData 500 Some False ?env ?s))
     = [QueueInputBuffer 0 0 2 (scast (oor (Finite (6000000001 / 2)))) 0]"
    unfolding encodeData_submits [OF h1 h2 h3] encodeData_drain_submissions
    by (simp add: submissions_def idle_stream_def frame_late_def ready_codec_def
        quiet_codec_def presentationTimeUs_frame_late [unfolded frame_late_def])
  show "scast (oor (Finite (6000000001 / 2))) \<noteq> (3000000000 :: 64 word)"
    by (rule submitted_time_below_3000_seconds)
  show "submissions (snd (encodeData 500 Some False ready_codec ?s))
     = [QueueInputBuffer 0 0 2 0xFFFFFFFF80000000 0]"
    by code_simp
  show "dmul (dmul (Finite 1000000) (double_of_int64 (pkt_pts frame_late)))
        (pkt_timeBase frame_late) = Finite 3000000000"
    by (rule frame_late_product)
  show "round (1000000 * of_int (sint (pkt_pts frame_late)) * (1 / 48000 :: rat)) = 3000000000"
    by code_simp
  show "INT_MAX < 3000000000"
    by (simp add: INT_MAX_def)
qed

text \<open>
  Claim C2. On the normal path with a frame of \<open>L\<close> bytes and an input buffer of capacity
  \<open>C\<close>, exactly the first \<open>min L C\<close> bytes of the frame are copied into the buffer, once,
  and exactly one input buffer is submitted, with offset 0, size \<open>min L C\<close>, the
  presentation time that lines 204 and 205 compute for the frame, and flags 0; the call
  then goes on to drain the output, as for any frame. A frame longer than the buffer is
  cut to the capacity \<open>C\<close>, and the cut is no error.
\<close>

theorem encodeData_copies_min:
  assumes "avPacketDequeue limit iStream (frameWait env) s = (Some packet, s1)"
    and "0 \<le> inputIndex env" and "inputBuffer env = Some buffer"
  shows "encodeData limit iStream False env s =
           encodeData_drain env
             (s1\<lparr>effects := effects s1 @
                [DequeueInputBuffer timeOut,
                 GetInputBuffer (nat (inputIndex env)),
                 MemcpyToInputBuffer (nat (inputIndex env))
                   (take (min (length (pkt_buffer packet)) (length buffer)) (pkt_buffer packet)),
                 QueueInputBuffer (nat (inputIndex env)) 0
                   (min (length (pkt_buffer packet)) (length buffer))
                   (scast (presentationTimeUs (outOfRangeInt env) packet)) 0]\<rparr>)
     \<and> length (take (min (length (pkt_buffer packet)) (length buffer)) (pkt_buffer packet))
          = min (length (pkt_buffer packet)) (length buffer)
     \<and> copies (snd (encodeData limit iStream False env s)) = copies s @
          [MemcpyToInputBuffer (nat (inputIndex env))
             (take (min (length (pkt_buffer packet)) (length buffer)) (pkt_buffer packet))]
     \<and> submissions (snd (encodeData limit iStream False env s)) = submissions s @
          [QueueInputBuffer (nat (inputIndex env)) 0
             (min (length (pkt_buffer packet)) (length buffer))
             (scast (presentationTimeUs (outOfRangeInt env) packet)) 0]
     \<and> (length buffer < length (pkt_buffer packet) \<longrightarrow>
           min (length (pkt_buffer packet)) (length buffer) = length buffer)"
proof -
  let ?idx = "nat (inputIndex env)"
  let ?n = "min (length (pkt_buffer packet)) (length buffer)"
  let ?copy = "MemcpyToInputBuffer ?idx (take ?n (pkt_buffer packet))"
  let ?queue = "QueueInputBuffer ?idx 0 ?n
                  (scast (presentationTimeUs (outOfRangeInt env) packet)) 0"
  let ?s4 = "s1\<lparr>effects := effects s1 @
                [DequeueInputBuffer timeOut, GetInputBuffer ?idx, ?copy, ?queue]\<rparr>"
  have s1: "submissions s1 = submissions s" "copies s1 = copies s"
    using avPacketDequeue_submissions[of limit iStream "frameWait env" s]
      avPacketDequeue_copies[of limit iStream "frameWait env" s] assms(1) by simp_all
  have eq: "encodeData limit iStream False env s = encodeData_drain env ?s4"
    by (rule encodeData_submits [OF assms])
  have c: "copies ?s4 = copies s @ [?copy]"
    using s1 by (simp add: copies_def)
  have sb: "submissions ?s4 = submissions s @ [?queue]"
    using s1 by (simp add: submissions_def)
  have l: "length (take ?n (pkt_buffer packet)) = ?n" by simp
  have t: "length buffer < length (pkt_buffer packet) \<longrightarrow> ?n = length buffer" by simp
  have c': "copies (snd (encodeData limit iStream False env s)) = copies s @ [?copy]"
    unfolding eq using c by (simp add: encodeData_drain_copies)
  have sb': "submissions (snd (encodeData limit iStream False env s)) = submissions s @ [?queue]"
    unfolding eq using sb by (simp add: encodeData_drain_submissions)
  from eq l c' sb' t show ?thesis by (intro conjI)
qed

theorem encodeData_copies_min_witness:
  "avPacketDequeue 500 Some (frameWait ready_codec) (idle_stream\<lparr>m_frame := Some frame_A\<rparr>)
      = (Some frame_A, idle_stream)
   \<and> 0 \<le> inputIndex ready_codec
   \<and> inputBuffer ready_codec = Some [0, 0, 0, 0]
   \<and> length [0, 0, 0, 0 :: byte] < length (pkt_buffer frame_A)
   \<and> copies (snd (encodeData 500 Some False ready_codec
                     (idle_stream\<lparr>m_frame := Some frame_A\<rparr>)))
        = [MemcpyToInputBuffer 0 [1, 2, 3, 4]]
   \<and> submissions (snd (encodeData 500 Some False ready_codec
                          (idle_stream\<lparr>m_frame := Some frame_A\<rparr>)))
        = [QueueInputBuffer 0 0 4 2000000 0]
   \<and> fst (encodeData 500 Some False ready_codec (idle_stream\<lparr>m_frame := Some frame_A\<rparr>))
        = Inr True"
proof -
  let ?s = "idle_stream\<lparr>m_frame := Some frame_A\<rparr>"
  have h1: "avPacketDequeue 500 Some (frameWait ready_codec) ?s = (Some frame_A, idle_stream)"
    by (simp add: avPacketDequeue_def idle_stream_def)
  have h2: "0 \<le> inputIndex ready_codec" by (simp add: ready_codec_def quiet_codec_def)
  have h3: "inputBuffer ready_codec = Some [0, 0, 0, 0]" by (simp add: ready_codec_def)
  have h4: "length [0, 0, 0, 0 :: byte] < length (pkt_buffer frame_A)"
    by (simp add: frame_A_def)
  note T = encodeData_copies_min [OF h1 h2 h3]
  from T have c: "copies (snd (encodeData 500 Some False ready_codec ?s)) = copies ?s @
          [MemcpyToInputBuffer (nat (inputIndex ready_codec))
             (take (min (length (pkt_buffer frame_A)) (length [0, 0, 0, 0 :: byte]))
                (pkt_buffer frame_A))]"
    by blast
  have ce: "copies ?s @
          [MemcpyToInputBuffer (nat (inputIndex ready_codec))
             (take (min (length (pkt_buffer frame_A)) (length [0, 0, 0, 0 :: byte]))
                (pkt_buffer frame_A))] = [MemcpyToInputBuffer 0 [1, 2, 3, 4]]"
    by code_simp
  from T have sb: "submissions (snd (encodeData 500 Some False ready_codec ?s))
        = submissions ?s @
            [QueueInputBuffer (nat (inputIndex ready_codec)) 0
               (min (length (pkt_buffer frame_A)) (length [0, 0, 0, 0 :: byte]))
               (scast (presentationTimeUs (outOfRangeInt ready_codec) frame_A)) 0]"
    by blast
  have se: "submissions ?s @
            [QueueInputBuffer (nat (inputIndex ready_codec)) 0
               (min (length (pkt_buffer frame_A)) (length [0, 0, 0, 0 :: byte]))
               (scast (presentationTimeUs (outOfRangeInt ready_codec) frame_A)) 0]
          = [QueueInputBuffer 0 0 4 2000000 0]"
    by code_simp
  have r: "fst (encodeData 500 Some False ready_codec ?s) = Inr True"
    by code_simp
  show ?thesis
    by (intro conjI h1 h2 h3 h4 r trans [OF c ce] trans [OF sb se])
qed

text \<open>
  Claim C10. On the normal path, when \<^verbatim>\<open>avPacketDequeue\<close> has returned a frame and the codec
  then offers no input buffer, or returns a null pointer for it, \<^verbatim>\<open>encodeData\<close> returns
  false, nothing is copied and nothing is submitted, and the slot is empty afterwards:
  the next \<^verbatim>\<open>avPacketDequeue\<close> whose wait times out returns the null packet.
\<close>

theorem encodeData_discards_frame:
  assumes "avPacketDequeue limit iStream (frameWait env) s = (Some packet, s1)"
    and "inputIndex env < 0 \<or> inputBuffer env = None"
  shows "fst (encodeData limit iStream False env s) = Inr False
     \<and> m_frame (snd (encodeData limit iStream False env s)) = None
     \<and> submissions (snd (encodeData limit iStream False env s)) = submissions s
     \<and> copies (snd (encodeData limit iStream False env s)) = copies s
     \<and> fst (avPacketDequeue limit iStream TimedOut
              (snd (encodeData limit iStream False env s))) = None"
proof -
  have s1: "m_frame s1 = None" "submissions s1 = submissions s" "copies s1 = copies s"
    using avPacketDequeue_empties[of limit iStream "frameWait env" s]
      avPacketDequeue_submissions[of limit iStream "frameWait env" s]
      avPacketDequeue_copies[of limit iStream "frameWait env" s] assms(1) by simp_all
  have "encodeData limit iStream False env s =
          (Inr False, if inputIndex env < 0 then emit (DequeueInputBuffer timeOut) s1
                      else emit (GetInputBuffer (nat (inputIndex env)))
                             (emit (DequeueInputBuffer timeOut) s1))"
    using assms by (auto simp: encodeData_def Let_def)
  then show ?thesis using s1
    by (simp add: m_frame_emit submissions_emit copies_emit avPacketDequeue_def)
qed

theorem encodeData_discards_frame_witness:
  "avPacketDequeue 500 Some (frameWait quiet_codec) (idle_stream\<lparr>m_frame := Some frame_A\<rparr>)
      = (Some frame_A, idle_stream)
   \<and> (inputIndex quiet_codec < 0 \<or> inputBuffer quiet_codec = None)
   \<and> encodeData 500 Some False quiet_codec (idle_stream\<lparr>m_frame := Some frame_A\<rparr>)
        = (Inr False, \<lparr>m_frame = None, stream_index = 1,
                        effects = [DequeueInputBuffer 5000]\<rparr>)
   \<and> m_frame (snd (encodeData 500 Some False quiet_codec
                      (idle_stream\<lparr>m_frame := Some frame_A\<rparr>))) = None"
proof -
  let ?s = "idle_stream\<lparr>m_frame := Some frame_A\<rparr>"
  have h1: "avPacketDequeue 500 Some (frameWait quiet_codec) ?s = (Some frame_A, idle_stream)"
    by (simp add: avPacketDequeue_def idle_stream_def)
  have h2: "inputIndex quiet_codec < 0 \<or> inputBuffer quiet_codec = None"
    by (simp add: quiet_codec_def)
  from encodeData_discards_frame [OF h1 h2]
  have m: "m_frame (snd (encodeData 500 Some False quiet_codec ?s)) = None"
    by blast
  have e: "encodeData 500 Some False quiet_codec ?s
        = (Inr False, \<lparr>m_frame = None, stream_index = 1,
                        effects = [DequeueInputBuffer 5000]\<rparr>)"
    by code_simp
  show ?thesis by (intro conjI h1 h2 e m)
qed

text \<open>
  Claim C6. With \<^verbatim>\<open>eos\<close> set: when the codec offers no input buffer, \<^verbatim>\<open>encodeData\<close> returns
  false and has done nothing but ask for one. Otherwise it submits exactly one input
  buffer, with offset 0, size 0, time 0 and the end-of-stream flag, copies nothing, and
  goes on to the same draining of the output as the normal path.
\<close>

theorem encodeData_eos:
  "(inputIndex env < 0 \<longrightarrow>
      encodeData limit iStream True env s = (Inr False, emit (DequeueInputBuffer timeOut) s))
   \<and> (0 \<le> inputIndex env \<longrightarrow>
      encodeData limit iStream True env s =
        encodeData_drain env
          (s\<lparr>effects := effects s @
             [DequeueInputBuffer timeOut,
              QueueInputBuffer (nat (inputIndex env)) 0 0 0
                AMEDIACODEC_BUFFER_FLAG_END_OF_STREAM]\<rparr>)
      \<and> submissions (snd (encodeData limit iStream True env s)) = submissions s @
           [QueueInputBuffer (nat (inputIndex env)) 0 0 0 AMEDIACODEC_BUFFER_FLAG_END_OF_STREAM]
      \<and> copies (snd (encodeData limit iStream True env s)) = copies s)"
proof (intro conjI impI)
  assume "inputIndex env < 0"
  then show "encodeData limit iStream True env s
               = (Inr False, emit (DequeueInputBuffer timeOut) s)"
    by (simp add: encodeData_def Let_def)
next
  let ?s2 = "s\<lparr>effects := effects s @
             [DequeueInputBuffer timeOut,
              QueueInputBuffer (nat (inputIndex env)) 0 0 0
                AMEDIACODEC_BUFFER_FLAG_END_OF_STREAM]\<rparr>"
  assume a: "0 \<le> inputIndex env"
  then show eq: "encodeData limit iStream True env s = encodeData_drain env ?s2"
    by (simp add: encodeData_def Let_def emit_def)
  show "submissions (snd (encodeData limit iStream True env s)) = submissions s @
           [QueueInputBuffer (nat (inputIndex env)) 0 0 0 AMEDIACODEC_BUFFER_FLAG_END_OF_STREAM]"
    unfolding eq by (simp add: encodeData_drain_submissions) (simp add: submissions_def)
  show "copies (snd (encodeData limit iStream True env s)) = copies s"
    unfolding eq by (simp add: encodeData_drain_copies) (simp add: copies_def)
qed

theorem encodeData_eos_witness:
  "inputIndex quiet_codec < 0
   \<and> encodeData 500 Some True quiet_codec idle_stream
        = (Inr False, \<lparr>m_frame = None, stream_index = 1,
                        effects = [DequeueInputBuffer 5000]\<rparr>)
   \<and> 0 \<le> inputIndex ready_codec
   \<and> submissions (snd (encodeData 500 Some True ready_codec idle_stream))
        = [QueueInputBuffer 0 0 0 0 4]
   \<and> copies (snd (encodeData 500 Some True ready_codec idle_stream)) = []
   \<and> encodeData 500 Some True ready_codec idle_stream
        = (Inr True, \<lparr>m_frame = None, stream_index = 1,
                       effects = [DequeueInputBuffer 5000, QueueInputBuffer 0 0 0 0 4,
                                  DequeueOutputBuffer 5000]\<rparr>)"
proof -
  have h1: "inputIndex quiet_codec < 0" by (simp add: quiet_codec_def)
  have h2: "0 \<le> inputIndex ready_codec" by (simp add: ready_codec_def quiet_codec_def)
  from encodeData_eos [of quiet_codec 500 Some idle_stream] h1
  have a: "encodeData 500 Some True quiet_codec idle_stream
             = (Inr False, emit (DequeueInputBuffer timeOut) idle_stream)"
    by blast
  have ae: "(Inr False, emit (DequeueInputBuffer timeOut) idle_stream)
      = (Inr False :: undefined_behaviour + bool,
         \<lparr>m_frame = None, stream_index = 1, effects = [DequeueInputBuffer 5000]\<rparr>)"
    by (simp add: emit_def idle_stream_def timeOut_def)
  from encodeData_eos [of ready_codec 500 Some idle_stream] h2
  have b: "submissions (snd (encodeData 500 Some True ready_codec idle_stream))
        = submissions idle_stream @
           [QueueInputBuffer (nat (inputIndex ready_codec)) 0 0 0
              AMEDIACODEC_BUFFER_FLAG_END_OF_STREAM]"
    and c: "copies (snd (encodeData 500 Some True ready_codec idle_stream)) = copies idle_stream"
    by blast+
  have be: "submissions idle_stream @
           [QueueInputBuffer (nat (inputIndex ready_codec)) 0 0 0
              AMEDIACODEC_BUFFER_FLAG_END_OF_STREAM] = [QueueInputBuffer 0 0 0 0 4]"
    by code_simp
  have ce: "copies idle_stream = []" by code_simp
  have r: "encodeData 500 Some True ready_codec idle_stream
        = (Inr True, \<lparr>m_frame = None, stream_index = 1,
                       effects = [DequeueInputBuffer 5000, QueueInputBuffer 0 0 0 0 4,
                                  DequeueOutputBuffer 5000]\<rparr>)"
    by code_simp
  show ?thesis
    by (intro conjI h1 h2 r trans [OF a ae] trans [OF b be] trans [OF c ce])
qed

subsection \<open>Reading an output buffer\<close>

text \<open>
  When \<^verbatim>\<open>readPacket\<close> returns a packet, its payload is the
  \<open>min capacity (size_t (info.size))\<close> bytes of the buffer that start at the offset.
\<close>

lemma readPacket_payload:
  assumes "fst (readPacket i info (Some bytes) s) = Inr packet"
  shows "pkt_buffer packet
           = take (min (length bytes) (size_t_of_int32 (info_size info)))
               (drop (nat (sint (info_offset info))) bytes)
     \<and> length (pkt_buffer packet) = min (length bytes) (size_t_of_int32 (info_size info))"
  using assms
  by (auto simp: readPacket_def memcpy_from_def Let_def split: if_splits)

text \<open>
  Claim C3 (a defect of the code). The claim: \<^verbatim>\<open>readPacket\<close> never reads outside the output
  buffer, and signals an error when the codec returns a null pointer. \<^verbatim>\<open>readPacket\<close> has
  no test of the pointer and no error to signal: with a null pointer it hands the pointer
  to \<^verbatim>\<open>memcpy\<close>. It bounds the number of bytes by the capacity but reads from
  \<^verbatim>\<open>data + info.offset\<close>: with a capacity of 4, offset 2 and size 4 it reads 4 bytes from
  offset 2, two of them past the buffer.
\<close>

theorem readPacket_reads_invalid_memory:
  "fst (readPacket 0
         \<lparr>info_offset = 0, info_size = 512, info_presentationTimeUs = 1000, info_flags = 0\<rparr>
         None idle_stream) = Inl NullPointerRead
   \<and> fst (readPacket 0
         \<lparr>info_offset = 2, info_size = 4, info_presentationTimeUs = 1000, info_flags = 0\<rparr>
         (Some [1, 2, 3, 4]) idle_stream) = Inl ReadOutOfBounds"
  by code_simp

end
